theory Spec2Isabelle
  imports Main
begin

section \<open>The resources declared by \<open>PipesTestStack\<close> (infra/lib/stack.ts)\<close>

text \<open>
  The stack is a constructor that declares eight constructs from literal property
  objects. Each property object is a record holding the properties the source sets,
  each enumeration of the construct library a datatype, and the constructor a function
  from its identifier and its (optional) properties to the declared constructs. Field
  names carry the construct's prefix where two property objects use the same name.
  The model follows the stack as the file declares it first (lines 1 to 170).
\<close>

subsection \<open>Enumerations and small value types\<close>

datatype AttributeType = BINARY | NUMBER | STRING

datatype RemovalPolicy = DESTROY | RETAIN | SNAPSHOT | RETAIN_ON_UPDATE_OR_DELETE

datatype Billing = onDemand | provisioned

datatype TableClass = STANDARD | STANDARD_INFREQUENT_ACCESS

text \<open>
  \<open>StateMachineType.STANDARD\<close> is \<open>STANDARD_WORKFLOW\<close>, the name \<open>STANDARD\<close> being the
  table class.
\<close>

datatype StateMachineType = EXPRESS | STANDARD_WORKFLOW

text \<open>\<open>LogLevel\<close>; the members carry a prefix, \<open>ALL\<close> being a reserved word.\<close>

datatype LogLevel = LOG_OFF | LOG_ALL | LOG_ERROR | LOG_FATAL

datatype PipeState = RUNNING | STOPPED

text \<open>\<open>Duration.seconds(n)\<close> and \<open>Duration.minutes(n)\<close>, with the length in seconds.\<close>

datatype Duration = seconds nat | minutes nat

fun toSeconds :: "Duration \<Rightarrow> nat" where
  "toSeconds (seconds n) = n"
| "toSeconds (minutes n) = 60 * n"

text \<open>The members of \<open>RetentionDays\<close> up to one month, with their number of days.\<close>

datatype RetentionDays =
  ONE_DAY | THREE_DAYS | FIVE_DAYS | ONE_WEEK | TWO_WEEKS | ONE_MONTH

fun days :: "RetentionDays \<Rightarrow> nat" where
  "days ONE_DAY = 1"
| "days THREE_DAYS = 3"
| "days FIVE_DAYS = 5"
| "days ONE_WEEK = 7"
| "days TWO_WEEKS = 14"
| "days ONE_MONTH = 30"

text \<open>
  A string property is either a literal or a reference to an attribute of another
  construct, resolved at deployment: \<open>queue.queueArn\<close> is \<open>Arn ''PipesTestQueue''\<close>,
  the literal \<open>'*'\<close> is \<open>Str ''*''\<close>.
\<close>

datatype Ref = Arn string | Str string

subsection \<open>Property objects\<close>

record Props =
  isUnitTest :: "bool option"

record Attribute =
  attr_name :: string
  attr_type :: AttributeType

record TableV2 =
  tableName :: string
  partitionKey :: Attribute
  sortKey :: "Attribute option"
  billing :: Billing
  deletionProtection :: bool
  pointInTimeRecovery :: bool
  tableClass :: TableClass
  timeToLiveAttribute :: "string option"
  tbl_removalPolicy :: RemovalPolicy

record Queue =
  queueName :: string
  visibilityTimeout :: Duration
  retentionPeriod :: Duration
  queue_removalPolicy :: RemovalPolicy

record Topic =
  topicName :: string
  displayName :: string

record SqsSubscription =
  subscribedQueue :: string
  rawMessageDelivery :: bool

record LogGroup =
  logGroupName :: string
  log_removalPolicy :: RemovalPolicy
  retention :: RetentionDays

record PolicyStatement =
  actions :: "string list"
  resources :: "Ref list"

record Role =
  assumedBy :: string
  roleName :: string
  role_description :: string
  policy :: "PolicyStatement list"

text \<open>\<open>addToPolicy\<close> appends a statement to the role's policy.\<close>

definition addToPolicy :: "PolicyStatement \<Rightarrow> Role \<Rightarrow> Role" where
  "addToPolicy st r = r\<lparr>policy := policy r @ [st]\<rparr>"

text \<open>
  What a role's policy grants: every action of a statement on every resource of that
  statement.
\<close>

definition grants :: "Role \<Rightarrow> (string \<times> Ref) list" where
  "grants r = concat (map (\<lambda>st. List.product (actions st) (resources st)) (policy r))"

section \<open>The workflow definition\<close>

subsection \<open>The data flowing through the workflow\<close>

text \<open>
  The payloads are JSON documents. An object keeps its members in order, as an
  association list; a number is kept as its literal text, since the workflow never
  computes with one.
\<close>

datatype json =
  JNull
| JBool bool
| JNum string
| JStr string
| JArr "json list"
| JObj "(string \<times> json) list"

text \<open>
  The reference paths and the intrinsic function the source uses, in parsed form:
  \<open>'$'\<close> is \<open>Root\<close>, \<open>'$.city'\<close> is \<open>Field ''city''\<close>, \<open>'$..body'\<close> is
  \<open>DeepScan ''body''\<close>, and
  \<open>"States.Format('WDATA#CITY#{}#{}', $.city, $.date)"\<close> is
  \<open>States_Format ''WDATA#CITY#{}#{}'' [Field ''city'', Field ''date'']\<close>.
\<close>

datatype JsonPath =
  Root
| Field string
| DeepScan string
| States_Format string "JsonPath list"

text \<open>
  \<open>DynamoAttributeValue.fromString\<close> and \<open>fromNumber\<close> take a literal or a path
  (\<open>JsonPath.stringAt\<close>, \<open>JsonPath.numberAt\<close>).
\<close>

datatype StringValue = Literal string | stringAt JsonPath

datatype NumberValue = LiteralNumber string | numberAt JsonPath

datatype DynamoAttributeValue = fromString StringValue | fromNumber NumberValue

subsection \<open>States\<close>

record PassProps =
  pass_comment :: string
  inputPath :: JsonPath

record MapProps =
  map_comment :: string
  itemsPath :: JsonPath
  maxConcurrency :: nat

record DynamoPutItemProps =
  put_comment :: string
  item :: "(string \<times> DynamoAttributeValue) list"
  table :: string

record DynamoKeyProps =
  key :: "(string \<times> DynamoAttributeValue) list"
  key_table :: string

text \<open>
  The states of a definition: \<open>Pass\<close>, \<open>Map\<close> with the chain it iterates, and the four
  table tasks of the construct library (put, get, update and delete item). The source
  uses \<open>Pass\<close>, \<open>Map\<close> and \<open>DynamoPutItem\<close>.
\<close>

datatype State =
  Pass PassProps
| Map_state MapProps "State list"
| DynamoPutItem DynamoPutItemProps
| DynamoGetItem DynamoKeyProps
| DynamoUpdateItem DynamoKeyProps
| DynamoDeleteItem DynamoKeyProps

record LogOptions =
  destination :: string
  includeExecutionData :: bool
  level :: LogLevel

record StateMachine =
  definitionBody :: "State list"
  stateMachineName :: string
  stateMachineType :: StateMachineType
  timeout :: Duration
  logs :: LogOptions

record SqsQueueParameters =
  batchSize :: nat
  maximumBatchingWindowInSeconds :: nat

record CfnPipe =
  pipe_description :: string
  pipe_name :: string
  desiredState :: PipeState
  source :: Ref
  sqsQueueParameters :: SqsQueueParameters
  inputTemplate :: "(string \<times> JsonPath) list"
  target :: Ref
  roleArn :: Ref

section \<open>The stack\<close>

record Stack =
  tbl :: TableV2
  queue :: Queue
  snsTopic :: Topic
  subscriptions :: "SqsSubscription list"
  stepFnLogGroup :: LogGroup
  stateMachine :: StateMachine
  pipeRole :: Role
  pipe :: CfnPipe

text \<open>The put-item task (lines 92 to 103); \<open>tbl\<close> is referred to by its construct id.\<close>

definition dynamoDbPutItem :: DynamoPutItemProps where
  "dynamoDbPutItem =
    \<lparr> put_comment = ''Put item into DynamoDB table'',
      item =
        [ (''pk'', fromString (stringAt
             (States_Format ''WDATA#CITY#{}#{}'' [Field ''city'', Field ''date'']))),
          (''sk'', fromString (stringAt (Field ''inspectTime''))),
          (''type'', fromString (Literal ''WeatherData'')),
          (''inspectTime'', fromString (stringAt (Field ''inspectTime''))),
          (''tempCelcius'', fromNumber (numberAt (Field ''tempCelcius''))),
          (''humidityPercent'', fromNumber (numberAt (Field ''humidityPercent''))) ],
      table = ''PipesTestTable'' \<rparr>"

text \<open>The map state with its iterator (lines 104 to 109).\<close>

definition mapState :: State where
  "mapState =
    Map_state
      \<lparr> map_comment = ''Map input to DynamoDB PutItem task'',
        itemsPath = Root,
        maxConcurrency = 1 \<rparr>
      [DynamoPutItem dynamoDbPutItem]"

text \<open>The pass state chained to the map state (lines 111 to 114).\<close>

definition passState :: "State list" where
  "passState =
    [ Pass \<lparr> pass_comment = ''Select body from input message'',
             inputPath = DeepScan ''body'' \<rparr>,
      mapState ]"

text \<open>
  The constructor. Neither the identifier (\<open>id\<close> in the source) nor the properties are read after the call of
  the super constructor, which declares nothing.
\<close>

definition PipesTestStack :: "string \<Rightarrow> Props option \<Rightarrow> Stack" where
  "PipesTestStack ident props =
    \<lparr> tbl =
        \<lparr> tableName = ''pipes-test-table'',
          partitionKey = \<lparr> attr_name = ''pk'', attr_type = STRING \<rparr>,
          sortKey = Some \<lparr> attr_name = ''sk'', attr_type = STRING \<rparr>,
          billing = onDemand,
          deletionProtection = False,
          pointInTimeRecovery = False,
          tableClass = STANDARD,
          timeToLiveAttribute = Some ''ttl'',
          tbl_removalPolicy = DESTROY \<rparr>,
      queue =
        \<lparr> queueName = ''pipes-test-queue'',
          visibilityTimeout = seconds 300,
          retentionPeriod = minutes 10,
          queue_removalPolicy = DESTROY \<rparr>,
      snsTopic =
        \<lparr> topicName = ''pipes-test-sns'',
          displayName = ''Topic fot EventBridge Pipes Test'' \<rparr>,
      subscriptions =
        [ \<lparr> subscribedQueue = ''PipesTestQueue'', rawMessageDelivery = True \<rparr> ],
      stepFnLogGroup =
        \<lparr> logGroupName = ''pipes-test-state-machine'',
          log_removalPolicy = DESTROY,
          retention = ONE_WEEK \<rparr>,
      stateMachine =
        \<lparr> definitionBody = passState,
          stateMachineName = ''pipes-test-state-machine'',
          stateMachineType = EXPRESS,
          timeout = minutes 1,
          logs =
            \<lparr> destination = ''PipesTestStateMachineLogGroup'',
              includeExecutionData = True,
              level = LOG_ALL \<rparr> \<rparr>,
      pipeRole =
        addToPolicy
          \<lparr> actions = [''states:Start*'', ''states:Stop*''],
            resources = [Arn ''PipesTestStateMachine''] \<rparr>
        (addToPolicy
          \<lparr> actions = [''states:ListStateMachines''],
            resources = [Str ''*''] \<rparr>
        (addToPolicy
          \<lparr> actions =
              [''sqs:ReceiveMessage'', ''sqs:DeleteMessage'', ''sqs:GetQueueAttributes''],
            resources = [Arn ''PipesTestQueue''] \<rparr>
          \<lparr> assumedBy = ''pipes.amazonaws.com'',
            roleName = ''EventBridgePipesTestRole'',
            role_description = ''Role assumed by EventBridge Pipes pipe'',
            policy = [] \<rparr>)),
      pipe =
        \<lparr> pipe_description = ''EventBridge Pipes Test Pipe'',
          pipe_name = ''pipes-test-pipe'',
          desiredState = RUNNING,
          source = Arn ''PipesTestQueue'',
          sqsQueueParameters =
            \<lparr> batchSize = 10, maximumBatchingWindowInSeconds = 45 \<rparr>,
          inputTemplate = [(''body'', Field ''body'')],
          target = Arn ''PipesTestStateMachine'',
          roleArn = Arn ''PipesTestRole'' \<rparr> \<rparr>"

section \<open>What the definition does with an input\<close>

text \<open>
  The definition is data; the workflow service interprets it. The interpreter below
  covers the constructs the source uses: the three kinds of path, the format
  intrinsic, the attribute values, and the pass, map and table task states. A failure
  of the service (a path that selects nothing, an intrinsic that cannot be applied, a
  rejected request) is an error value, and a failing state fails the execution.
\<close>

datatype error =
  PathNotFound
| IntrinsicFailure
| NotAnArray
| NotAString
| TaskFailed string

text \<open>\<open>$.k\<close>: the member \<open>k\<close> of an object.\<close>

definition field :: "string \<Rightarrow> json \<Rightarrow> json option" where
  "field k j = (case j of JObj ms \<Rightarrow> map_of ms k | _ \<Rightarrow> None)"

text \<open>
  \<open>$..k\<close>: the members named \<open>k\<close> at any depth, an object's own member before the
  matches inside its members' values.
\<close>

fun deepScan :: "string \<Rightarrow> json \<Rightarrow> json list" where
  "deepScan k (JObj ms) =
     (case map_of ms k of Some v \<Rightarrow> [v] | None \<Rightarrow> [])
       @ concat (map (\<lambda>m. deepScan k (snd m)) ms)"
| "deepScan k (JArr xs) = concat (map (deepScan k) xs)"
| "deepScan k j = []"

text \<open>
  An argument of the format intrinsic must be a string, a number, a boolean or null,
  and stands for its text (a string without its quotes).
\<close>

fun scalarText :: "json \<Rightarrow> string option" where
  "scalarText (JStr s) = Some s"
| "scalarText (JNum n) = Some n"
| "scalarText (JBool b) = Some (if b then ''true'' else ''false'')"
| "scalarText JNull = Some ''null''"
| "scalarText (JArr xs) = None"
| "scalarText (JObj ms) = None"

text \<open>
  \<open>States.Format\<close>: each \<open>{}\<close> of the template is replaced by the next argument, and
  there must be as many arguments as occurrences of \<open>{}\<close>. The template of the source
  has no escape sequence, so none is interpreted.
\<close>

fun format :: "string \<Rightarrow> string list \<Rightarrow> string option" where
  "format [] [] = Some []"
| "format [] (a # as) = None"
| "format [c] as = map_option (\<lambda>r. c # r) (format [] as)"
| "format (c # d # rest) as =
     (if c = CHR ''{'' \<and> d = CHR ''}'' then
        (case as of
           [] \<Rightarrow> None
         | a # as' \<Rightarrow> map_option (\<lambda>r. a @ r) (format rest as'))
      else map_option (\<lambda>r. c # r) (format (d # rest) as))"

text \<open>The results of a list of evaluations, or the first error among them.\<close>

fun collect :: "('e + 'a) list \<Rightarrow> 'e + 'a list" where
  "collect [] = Inr []"
| "collect (Inl e # rs) = Inl e"
| "collect (Inr v # rs) = (case collect rs of Inl e \<Rightarrow> Inl e | Inr vs \<Rightarrow> Inr (v # vs))"

fun evalPath :: "JsonPath \<Rightarrow> json \<Rightarrow> error + json" where
  "evalPath Root j = Inr j"
| "evalPath (Field k) j = (case field k j of None \<Rightarrow> Inl PathNotFound | Some v \<Rightarrow> Inr v)"
| "evalPath (DeepScan k) j = Inr (JArr (deepScan k j))"
| "evalPath (States_Format template args) j =
     (case collect (map (\<lambda>a. evalPath a j) args) of
        Inl e \<Rightarrow> Inl e
      | Inr vs \<Rightarrow>
          (case those (map scalarText vs) of
             None \<Rightarrow> Inl IntrinsicFailure
           | Some texts \<Rightarrow>
               (case format template texts of
                  None \<Rightarrow> Inl IntrinsicFailure
                | Some s \<Rightarrow> Inr (JStr s))))"

subsection \<open>Attribute values and requests\<close>

text \<open>
  An attribute value of a request is typed: \<open>AttrS\<close> is a string (\<open>S\<close>), \<open>AttrN\<close> a
  number (\<open>N\<close>). Both travel as text, so a value taken from the input must be a JSON
  string in either case; the README records that the execution fails when a
  measurement arrives as a JSON number.
\<close>

datatype AttributeValue = AttrS string | AttrN string

fun renderAttribute :: "DynamoAttributeValue \<Rightarrow> json \<Rightarrow> error + AttributeValue" where
  "renderAttribute (fromString (Literal s)) j = Inr (AttrS s)"
| "renderAttribute (fromString (stringAt p)) j =
     (case evalPath p j of
        Inl e \<Rightarrow> Inl e
      | Inr (JStr s) \<Rightarrow> Inr (AttrS s)
      | Inr _ \<Rightarrow> Inl NotAString)"
| "renderAttribute (fromNumber (LiteralNumber n)) j = Inr (AttrN n)"
| "renderAttribute (fromNumber (numberAt p)) j =
     (case evalPath p j of
        Inl e \<Rightarrow> Inl e
      | Inr (JStr s) \<Rightarrow> Inr (AttrN s)
      | Inr _ \<Rightarrow> Inl NotAString)"

definition renderAttributes ::
  "(string \<times> DynamoAttributeValue) list \<Rightarrow> json \<Rightarrow> error + (string \<times> AttributeValue) list" where
  "renderAttributes attrs j =
     collect (map (\<lambda>(name, v). map_sum id (\<lambda>a. (name, a)) (renderAttribute v j)) attrs)"

text \<open>The requests the table tasks send: the operation, the table and the attributes.\<close>

datatype Request =
  PutItem string "(string \<times> AttributeValue) list"
| GetItem string "(string \<times> AttributeValue) list"
| UpdateItem string "(string \<times> AttributeValue) list"
| DeleteItem string "(string \<times> AttributeValue) list"

fun isPutItem :: "Request \<Rightarrow> bool" where
  "isPutItem (PutItem t it) = True"
| "isPutItem r = False"

definition putItemRequest :: "DynamoPutItemProps \<Rightarrow> json \<Rightarrow> error + Request" where
  "putItemRequest p j = map_sum id (PutItem (table p)) (renderAttributes (item p) j)"

subsection \<open>Executing states\<close>

text \<open>
  An execution returns the requests it has sent, in order, and its output or its error.
  The table is not part of the stack's code: its answer to a request is the parameter
  \<open>service\<close>. What the requests do to the table's items is modelled apart, below.
\<close>

definition callService ::
  "(Request \<Rightarrow> error + json) \<Rightarrow> error + Request \<Rightarrow> Request list \<times> (error + json)" where
  "callService service r =
     (case r of Inl e \<Rightarrow> ([], Inl e) | Inr req \<Rightarrow> ([req], service req))"

text \<open>
  The iterations of a map state with \<open>maxConcurrency\<close> 1 run one after the other, and
  the first failing one fails the state: of the iterations' outcomes, those up to the
  first failure count.
\<close>

fun untilFailure ::
  "(Request list \<times> (error + json)) list \<Rightarrow> Request list \<times> (error + json list)" where
  "untilFailure [] = ([], Inr [])"
| "untilFailure ((rs, Inl e) # rest) = (rs, Inl e)"
| "untilFailure ((rs, Inr out) # rest) =
     (case untilFailure rest of
        (rs', Inl e) \<Rightarrow> (rs @ rs', Inl e)
      | (rs', Inr outs) \<Rightarrow> (rs @ rs', Inr (out # outs)))"

fun execState ::
    "(Request \<Rightarrow> error + json) \<Rightarrow> State \<Rightarrow> json \<Rightarrow> Request list \<times> (error + json)"
  and execChain ::
    "(Request \<Rightarrow> error + json) \<Rightarrow> State list \<Rightarrow> json \<Rightarrow> Request list \<times> (error + json)"
where
  "execState service (Pass p) j = ([], evalPath (inputPath p) j)"
| "execState service (Map_state p iterator) j =
     (case evalPath (itemsPath p) j of
        Inl e \<Rightarrow> ([], Inl e)
      | Inr (JArr xs) \<Rightarrow>
          (case untilFailure (map (execChain service iterator) xs) of
             (rs, Inl e) \<Rightarrow> (rs, Inl e)
           | (rs, Inr outs) \<Rightarrow> (rs, Inr (JArr outs)))
      | Inr _ \<Rightarrow> ([], Inl NotAnArray))"
| "execState service (DynamoPutItem p) j = callService service (putItemRequest p j)"
| "execState service (DynamoGetItem p) j =
     callService service (map_sum id (GetItem (key_table p)) (renderAttributes (key p) j))"
| "execState service (DynamoUpdateItem p) j =
     callService service (map_sum id (UpdateItem (key_table p)) (renderAttributes (key p) j))"
| "execState service (DynamoDeleteItem p) j =
     callService service (map_sum id (DeleteItem (key_table p)) (renderAttributes (key p) j))"
| "execChain service [] j = ([], Inr j)"
| "execChain service (s # ss) j =
     (case execState service s j of
        (rs, Inl e) \<Rightarrow> (rs, Inl e)
      | (rs, Inr out) \<Rightarrow>
          (case execChain service ss out of (rs', r) \<Rightarrow> (rs @ rs', r)))"

text \<open>The table tasks of a definition, those inside a map state's iterator included.\<close>

fun tableTasks :: "State \<Rightarrow> State list" where
  "tableTasks (Pass p) = []"
| "tableTasks (Map_state p iterator) = concat (map tableTasks iterator)"
| "tableTasks s = [s]"

text \<open>An execution of the stack's state machine on an input.\<close>

definition startExecution ::
  "Stack \<Rightarrow> (Request \<Rightarrow> error + json) \<Rightarrow> json \<Rightarrow> Request list \<times> (error + json)" where
  "startExecution stack service input =
     execChain service (definitionBody (stateMachine stack)) input"

subsection \<open>The table\<close>

text \<open>
  The table holds one item for each primary key, the values of the attributes its key
  schema names. A put-item request carries no condition: it creates the item, or
  replaces the item that has its key. A delete-item removes the item of its key; an
  update-item that only names a key creates the item when the key is absent.
\<close>

type_synonym Item = "(string \<times> AttributeValue) list"

definition primaryKey :: "TableV2 \<Rightarrow> Item \<Rightarrow> AttributeValue option \<times> AttributeValue option" where
  "primaryKey t it =
     (map_of it (attr_name (partitionKey t)),
      case sortKey t of None \<Rightarrow> None | Some a \<Rightarrow> map_of it (attr_name a))"

fun applyRequest :: "TableV2 \<Rightarrow> Item list \<Rightarrow> Request \<Rightarrow> Item list" where
  "applyRequest t items (PutItem n it) =
     it # filter (\<lambda>old. primaryKey t old \<noteq> primaryKey t it) items"
| "applyRequest t items (GetItem n k) = items"
| "applyRequest t items (UpdateItem n k) =
     (if primaryKey t k \<in> set (map (primaryKey t) items) then items else k # items)"
| "applyRequest t items (DeleteItem n k) =
     filter (\<lambda>old. primaryKey t old \<noteq> primaryKey t k) items"

subsection \<open>The pipe's input template\<close>

text \<open>
  The pipe applies \<open>'{ "body": <$.body> }'\<close> to each event of a batch and starts the
  workflow with the array of the results. An event's body is the message, as JSON.
\<close>

definition transformEvent :: "CfnPipe \<Rightarrow> json \<Rightarrow> error + json" where
  "transformEvent p event =
     map_sum id JObj
       (collect (map (\<lambda>(name, path). map_sum id (\<lambda>v. (name, v)) (evalPath path event))
          (inputTemplate p)))"

definition targetInput :: "CfnPipe \<Rightarrow> json list \<Rightarrow> error + json" where
  "targetInput p events = map_sum id JArr (collect (map (transformEvent p) events))"

subsection \<open>Messages\<close>

text \<open>
  A message as the entry point accepts it: an object whose location, date, inspection
  time and two measurements are strings.
\<close>

fun isString :: "json option \<Rightarrow> bool" where
  "isString (Some (JStr s)) = True"
| "isString v = False"

definition acceptedMessage :: "json \<Rightarrow> bool" where
  "acceptedMessage m =
     (isString (field ''city'' m) \<and> isString (field ''date'' m) \<and>
      isString (field ''inspectTime'' m) \<and> isString (field ''tempCelcius'' m) \<and>
      isString (field ''humidityPercent'' m))"

text \<open>The message of the README's publish command.\<close>

definition sampleMessage :: json where
  "sampleMessage =
     JObj [ (''city'', JStr ''Tampere''),
            (''date'', JStr ''2023-10-15''),
            (''inspectTime'', JStr ''2023-10-15T17:00:58+03:00''),
            (''tempCelcius'', JStr ''5.1''),
            (''humidityPercent'', JStr ''58'') ]"

text \<open>
  The input the comment of stack.ts (lines 82 to 89) describes, its measurements being
  JSON numbers.
\<close>

definition commentMessage :: json where
  "commentMessage =
     JObj [ (''city'', JStr ''Tampere''),
            (''date'', JStr ''yyyy-mm-dd''),
            (''inspectTime'', JStr ''yyyy-mm-ddThh:mm:ss''),
            (''tempCelcius'', JNum ''0.0''),
            (''humidityPercent'', JNum ''0.0'') ]"

text \<open>
  An event of the queue carrying the README's message, a workflow input of two such
  messages, and one of the comment's message.
\<close>

definition sampleEvent :: json where
  "sampleEvent = JObj [(''messageId'', JStr ''1''), (''body'', sampleMessage)]"

definition sampleInput :: json where
  "sampleInput = JArr [JObj [(''body'', sampleMessage)], JObj [(''body'', sampleMessage)]]"

definition commentInput :: json where
  "commentInput = JArr [JObj [(''body'', commentMessage)]]"

text \<open>
  An event carrying the comment's message; a message with the README's city, date and
  inspection time and another temperature, and a workflow input of the two.
\<close>

definition commentEvent :: json where
  "commentEvent = JObj [(''messageId'', JStr ''1''), (''body'', commentMessage)]"

definition laterMessage :: json where
  "laterMessage =
     JObj [ (''city'', JStr ''Tampere''),
            (''date'', JStr ''2023-10-15''),
            (''inspectTime'', JStr ''2023-10-15T17:00:58+03:00''),
            (''tempCelcius'', JStr ''6.3''),
            (''humidityPercent'', JStr ''58'') ]"

definition overwriteInput :: json where
  "overwriteInput = JArr [JObj [(''body'', sampleMessage)], JObj [(''body'', laterMessage)]]"

text \<open>A table that serves every request.\<close>

definition served :: "Request \<Rightarrow> error + json" where
  "served r = Inr (JObj [])"

section \<open>The declared resources\<close>

text \<open>
  C7. The table's key schema is a partition key named \<open>pk\<close> and a sort key named
  \<open>sk\<close>, both of type string, and its time-to-live attribute is named \<open>ttl\<close>.
\<close>

theorem table_key_schema_and_ttl:
  "partitionKey (tbl (PipesTestStack ident props)) = \<lparr> attr_name = ''pk'', attr_type = STRING \<rparr>
   \<and> sortKey (tbl (PipesTestStack ident props)) = Some \<lparr> attr_name = ''sk'', attr_type = STRING \<rparr>
   \<and> timeToLiveAttribute (tbl (PipesTestStack ident props)) = Some ''ttl''"
  by (simp add: PipesTestStack_def)

text \<open>
  C8. The operational parameters have their configured values: batch size 10, batching
  window 45 seconds, visibility timeout 300 seconds, retention period 10 minutes,
  workflow timeout 1 minute, log retention one week. No condition is involved: the
  stack is the same whatever identifier and properties the constructor is given.
\<close>

theorem operational_parameters:
  "batchSize (sqsQueueParameters (pipe (PipesTestStack ident props))) = 10
   \<and> maximumBatchingWindowInSeconds (sqsQueueParameters (pipe (PipesTestStack ident props))) = 45
   \<and> visibilityTimeout (queue (PipesTestStack ident props)) = seconds 300
   \<and> retentionPeriod (queue (PipesTestStack ident props)) = minutes 10
   \<and> toSeconds (retentionPeriod (queue (PipesTestStack ident props))) = 600
   \<and> timeout (stateMachine (PipesTestStack ident props)) = minutes 1
   \<and> toSeconds (timeout (stateMachine (PipesTestStack ident props))) = 60
   \<and> retention (stepFnLogGroup (PipesTestStack ident props)) = ONE_WEEK
   \<and> days (retention (stepFnLogGroup (PipesTestStack ident props))) = 7
   \<and> PipesTestStack ident props = PipesTestStack ident' props'"
  by (simp add: PipesTestStack_def)

text \<open>
  C10. The table, the queue and the log group have removal policy \<open>DESTROY\<close>, and the
  table's deletion protection is off.
\<close>

theorem removal_policies:
  "tbl_removalPolicy (tbl (PipesTestStack ident props)) = DESTROY
   \<and> queue_removalPolicy (queue (PipesTestStack ident props)) = DESTROY
   \<and> log_removalPolicy (stepFnLogGroup (PipesTestStack ident props)) = DESTROY
   \<and> deletionProtection (tbl (PipesTestStack ident props)) = False"
  by (simp add: PipesTestStack_def)

subsection \<open>The pipe's role\<close>

lemma pipeRole_policy:
  "policy (pipeRole (PipesTestStack ident props)) =
     [ \<lparr> actions = [''sqs:ReceiveMessage'', ''sqs:DeleteMessage'', ''sqs:GetQueueAttributes''],
         resources = [Arn ''PipesTestQueue''] \<rparr>,
       \<lparr> actions = [''states:ListStateMachines''], resources = [Str ''*''] \<rparr>,
       \<lparr> actions = [''states:Start*'', ''states:Stop*''],
         resources = [Arn ''PipesTestStateMachine''] \<rparr> ]"
  by (simp add: PipesTestStack_def addToPolicy_def)

lemma pipeRole_grants:
  "grants (pipeRole (PipesTestStack ident props)) =
     [ (''sqs:ReceiveMessage'', Arn ''PipesTestQueue''),
       (''sqs:DeleteMessage'', Arn ''PipesTestQueue''),
       (''sqs:GetQueueAttributes'', Arn ''PipesTestQueue''),
       (''states:ListStateMachines'', Str ''*''),
       (''states:Start*'', Arn ''PipesTestStateMachine''),
       (''states:Stop*'', Arn ''PipesTestStateMachine'') ]"
  by (simp add: grants_def pipeRole_policy)

lemma pipe_source_target:
  "source (pipe (PipesTestStack ident props)) = Arn ''PipesTestQueue''"
  "target (pipe (PipesTestStack ident props)) = Arn ''PipesTestStateMachine''"
  by (simp_all add: PipesTestStack_def)

text \<open>
  C2, as stated, fails: the role is granted \<open>states:ListStateMachines\<close> on the resource
  \<open>'*'\<close>, which is neither the queue nor the state machine.
\<close>

theorem pipe_role_wildcard_grant:
  "(''states:ListStateMachines'', Str ''*'')
     \<in> set (grants (pipeRole (PipesTestStack ''PipesTestStack'' None)))
   \<and> \<not> set (map snd (grants (pipeRole (PipesTestStack ''PipesTestStack'' None))))
        \<subseteq> {Arn ''PipesTestQueue'', Arn ''PipesTestStateMachine''}"
  by (simp add: pipeRole_grants)

text \<open>
  C2, amended. The role's policy has exactly three statements: receive-message,
  delete-message and get-queue-attributes on the queue (the pipe's source); the list
  action \<open>states:ListStateMachines\<close> on every resource (\<open>'*'\<close>); and the actions
  \<open>states:Start*\<close> and \<open>states:Stop*\<close> on the state machine (the pipe's target).
  Nothing else is granted.
\<close>

theorem pipe_role_permissions:
  "policy (pipeRole (PipesTestStack ident props)) =
     [ \<lparr> actions = [''sqs:ReceiveMessage'', ''sqs:DeleteMessage'', ''sqs:GetQueueAttributes''],
         resources = [source (pipe (PipesTestStack ident props))] \<rparr>,
       \<lparr> actions = [''states:ListStateMachines''], resources = [Str ''*''] \<rparr>,
       \<lparr> actions = [''states:Start*'', ''states:Stop*''],
         resources = [target (pipe (PipesTestStack ident props))] \<rparr> ]
   \<and> source (pipe (PipesTestStack ident props)) = Arn ''PipesTestQueue''
   \<and> target (pipe (PipesTestStack ident props)) = Arn ''PipesTestStateMachine''
   \<and> set (grants (pipeRole (PipesTestStack ident props))) =
       { (''sqs:ReceiveMessage'', Arn ''PipesTestQueue''),
         (''sqs:DeleteMessage'', Arn ''PipesTestQueue''),
         (''sqs:GetQueueAttributes'', Arn ''PipesTestQueue''),
         (''states:ListStateMachines'', Str ''*''),
         (''states:Start*'', Arn ''PipesTestStateMachine''),
         (''states:Stop*'', Arn ''PipesTestStateMachine'') }"
proof (intro conjI)
  show "policy (pipeRole (PipesTestStack ident props)) =
     [ \<lparr> actions = [''sqs:ReceiveMessage'', ''sqs:DeleteMessage'', ''sqs:GetQueueAttributes''],
         resources = [source (pipe (PipesTestStack ident props))] \<rparr>,
       \<lparr> actions = [''states:ListStateMachines''], resources = [Str ''*''] \<rparr>,
       \<lparr> actions = [''states:Start*'', ''states:Stop*''],
         resources = [target (pipe (PipesTestStack ident props))] \<rparr> ]"
    by (simp only: pipe_source_target pipeRole_policy)
  show "set (grants (pipeRole (PipesTestStack ident props))) =
       { (''sqs:ReceiveMessage'', Arn ''PipesTestQueue''),
         (''sqs:DeleteMessage'', Arn ''PipesTestQueue''),
         (''sqs:GetQueueAttributes'', Arn ''PipesTestQueue''),
         (''states:ListStateMachines'', Str ''*''),
         (''states:Start*'', Arn ''PipesTestStateMachine''),
         (''states:Stop*'', Arn ''PipesTestStateMachine'') }"
    by (simp only: pipeRole_grants list.set)
qed (rule pipe_source_target)+

section \<open>The record written for a message\<close>

subsection \<open>The request of the put-item task\<close>

lemma format_key: "format ''WDATA#CITY#{}#{}'' [c, d] = Some (''WDATA#CITY#'' @ c @ ''#'' @ d)"
  by simp

text \<open>The request for a message whose five fields are strings.\<close>

lemma putItemRequest_accepted:
  assumes "field ''city'' m = Some (JStr c)"
    and "field ''date'' m = Some (JStr d)"
    and "field ''inspectTime'' m = Some (JStr t)"
    and "field ''tempCelcius'' m = Some (JStr tc)"
    and "field ''humidityPercent'' m = Some (JStr h)"
  shows "putItemRequest dynamoDbPutItem m =
    Inr (PutItem ''PipesTestTable''
      [ (''pk'', AttrS (''WDATA#CITY#'' @ c @ ''#'' @ d)),
        (''sk'', AttrS t),
        (''type'', AttrS ''WeatherData''),
        (''inspectTime'', AttrS t),
        (''tempCelcius'', AttrN tc),
        (''humidityPercent'', AttrN h) ])"
  using assms by (simp add: putItemRequest_def dynamoDbPutItem_def renderAttributes_def)

text \<open>Conversely, a request is only sent for a message of that kind.\<close>

lemma putItemRequest_written:
  assumes "putItemRequest dynamoDbPutItem m = Inr r"
  shows "\<exists>k t tc h.
    field ''inspectTime'' m = Some (JStr t) \<and>
    field ''tempCelcius'' m = Some (JStr tc) \<and>
    field ''humidityPercent'' m = Some (JStr h) \<and>
    r = PutItem ''PipesTestTable''
      [ (''pk'', AttrS k), (''sk'', AttrS t), (''type'', AttrS ''WeatherData''),
        (''inspectTime'', AttrS t), (''tempCelcius'', AttrN tc),
        (''humidityPercent'', AttrN h) ]"
  using assms
  by (auto simp: putItemRequest_def dynamoDbPutItem_def renderAttributes_def
      split: sum.splits option.splits json.splits)

lemma isString_iff: "isString v \<longleftrightarrow> (\<exists>s. v = Some (JStr s))"
  by (cases v rule: isString.cases) auto

lemma sample_fields:
  "field ''city'' sampleMessage = Some (JStr ''Tampere'')"
  "field ''date'' sampleMessage = Some (JStr ''2023-10-15'')"
  "field ''inspectTime'' sampleMessage = Some (JStr ''2023-10-15T17:00:58+03:00'')"
  "field ''tempCelcius'' sampleMessage = Some (JStr ''5.1'')"
  "field ''humidityPercent'' sampleMessage = Some (JStr ''58'')"
  by (simp_all add: sampleMessage_def field_def)

lemma accepted_fields:
  assumes "acceptedMessage m"
  obtains c d t tc h where
    "field ''city'' m = Some (JStr c)" "field ''date'' m = Some (JStr d)"
    "field ''inspectTime'' m = Some (JStr t)" "field ''tempCelcius'' m = Some (JStr tc)"
    "field ''humidityPercent'' m = Some (JStr h)"
  using assms unfolding acceptedMessage_def isString_iff by blast

lemma accepted_written: "acceptedMessage m \<Longrightarrow> \<exists>r. putItemRequest dynamoDbPutItem m = Inr r"
  by (erule accepted_fields) (simp add: putItemRequest_accepted)

lemma sample_accepted: "acceptedMessage sampleMessage"
  by (simp add: acceptedMessage_def sample_fields)

text \<open>
  The defect the README records: a measurement that arrives as a JSON number fails the
  task, so the measurements are sent as strings.
\<close>

lemma number_rejected: "putItemRequest dynamoDbPutItem commentMessage = Inl NotAString"
  by (simp add: putItemRequest_def dynamoDbPutItem_def renderAttributes_def field_def
      commentMessage_def)

subsection \<open>The measurements\<close>

text \<open>
  C5. The two measurements, strings in the message, are written as attributes of type
  number (\<open>N\<close>) holding the same text. The record is written when the other three
  fields are strings.
\<close>

theorem measurements_stored_as_numbers:
  assumes "field ''tempCelcius'' m = Some (JStr temperature)"
    and "field ''humidityPercent'' m = Some (JStr humidity)"
  shows "(isString (field ''city'' m) \<and> isString (field ''date'' m)
            \<and> isString (field ''inspectTime'' m) \<longrightarrow>
            (\<exists>it. putItemRequest dynamoDbPutItem m = Inr (PutItem ''PipesTestTable'' it)))
         \<and> (\<forall>t it. putItemRequest dynamoDbPutItem m = Inr (PutItem t it) \<longrightarrow>
              map_of it ''tempCelcius'' = Some (AttrN temperature)
              \<and> map_of it ''humidityPercent'' = Some (AttrN humidity))"
proof (intro conjI allI impI)
  assume "isString (field ''city'' m) \<and> isString (field ''date'' m)
            \<and> isString (field ''inspectTime'' m)"
  then obtain c d t where "field ''city'' m = Some (JStr c)"
    and "field ''date'' m = Some (JStr d)" and "field ''inspectTime'' m = Some (JStr t)"
    unfolding isString_iff by blast
  with assms show "\<exists>it. putItemRequest dynamoDbPutItem m = Inr (PutItem ''PipesTestTable'' it)"
    by (simp add: putItemRequest_accepted)
next
  fix t it
  assume "putItemRequest dynamoDbPutItem m = Inr (PutItem t it)"
  from putItemRequest_written [OF this] assms
  obtain k s where it: "it = [ (''pk'', AttrS k), (''sk'', AttrS s), (''type'', AttrS ''WeatherData''),
        (''inspectTime'', AttrS s), (''tempCelcius'', AttrN temperature),
        (''humidityPercent'', AttrN humidity) ]"
    by auto
  show "map_of it ''tempCelcius'' = Some (AttrN temperature)"
    by (simp add: it)
  show "map_of it ''humidityPercent'' = Some (AttrN humidity)"
    by (simp add: it)
qed

text \<open>C5 at the README's message.\<close>

theorem measurements_sample:
  "\<exists>it. putItemRequest dynamoDbPutItem sampleMessage = Inr (PutItem ''PipesTestTable'' it)
     \<and> map_of it ''tempCelcius'' = Some (AttrN ''5.1'')
     \<and> map_of it ''humidityPercent'' = Some (AttrN ''58'')"
proof -
  note num = measurements_stored_as_numbers [OF sample_fields(4) sample_fields(5)]
  from num obtain it
    where "putItemRequest dynamoDbPutItem sampleMessage = Inr (PutItem ''PipesTestTable'' it)"
    by (auto simp: sample_fields)
  with num show ?thesis
    by auto
qed

subsection \<open>The sort key and the type tag\<close>

text \<open>
  C9. In every record written, the attributes \<open>sk\<close> and \<open>inspectTime\<close> are equal, both
  being the message's \<open>inspectTime\<close>, and the attribute \<open>type\<close> is the string
  \<open>WeatherData\<close>, whatever the message. A record is written for every accepted message.
\<close>

theorem sort_key_and_type_tag:
  "(acceptedMessage m \<longrightarrow>
      (\<exists>it. putItemRequest dynamoDbPutItem m = Inr (PutItem ''PipesTestTable'' it)))
   \<and> (\<forall>t it. putItemRequest dynamoDbPutItem m = Inr (PutItem t it) \<longrightarrow>
        map_of it ''sk'' = map_of it ''inspectTime''
        \<and> map_of it ''sk'' = map_option AttrS
             (case field ''inspectTime'' m of Some (JStr s) \<Rightarrow> Some s | _ \<Rightarrow> None)
        \<and> map_of it ''sk'' \<noteq> None
        \<and> map_of it ''type'' = Some (AttrS ''WeatherData''))"
proof (intro conjI allI impI)
  assume "acceptedMessage m"
  then show "\<exists>it. putItemRequest dynamoDbPutItem m = Inr (PutItem ''PipesTestTable'' it)"
    by (rule accepted_fields) (simp add: putItemRequest_accepted)
next
  fix t it
  assume "putItemRequest dynamoDbPutItem m = Inr (PutItem t it)"
  from putItemRequest_written [OF this]
  obtain k s tc h where s: "field ''inspectTime'' m = Some (JStr s)"
    and it: "it = [ (''pk'', AttrS k), (''sk'', AttrS s), (''type'', AttrS ''WeatherData''),
        (''inspectTime'', AttrS s), (''tempCelcius'', AttrN tc), (''humidityPercent'', AttrN h) ]"
    by auto
  show "map_of it ''sk'' = map_of it ''inspectTime''"
    by (simp add: it)
  show "map_of it ''sk'' = map_option AttrS
             (case field ''inspectTime'' m of Some (JStr s) \<Rightarrow> Some s | _ \<Rightarrow> None)"
    by (simp add: it s)
  show "map_of it ''sk'' \<noteq> None"
    by (simp add: it)
  show "map_of it ''type'' = Some (AttrS ''WeatherData'')"
    by (simp add: it)
qed

text \<open>C9 at the README's message.\<close>

theorem sort_key_and_type_tag_sample:
  "\<exists>it. putItemRequest dynamoDbPutItem sampleMessage = Inr (PutItem ''PipesTestTable'' it)
     \<and> map_of it ''sk'' = Some (AttrS ''2023-10-15T17:00:58+03:00'')
     \<and> map_of it ''inspectTime'' = Some (AttrS ''2023-10-15T17:00:58+03:00'')
     \<and> map_of it ''type'' = Some (AttrS ''WeatherData'')"
proof -
  note tag = sort_key_and_type_tag [of sampleMessage]
  from tag sample_accepted obtain it
    where "putItemRequest dynamoDbPutItem sampleMessage = Inr (PutItem ''PipesTestTable'' it)"
    by blast
  with tag show ?thesis
    by (auto simp: sample_fields)
qed

subsection \<open>The attributes of a record\<close>

text \<open>
  C1, as stated, fails: the record written for the README's message has no attribute
  \<open>ttl\<close>, the attribute the table declares for expiry.
\<close>

theorem sample_item_has_no_ttl:
  "putItemRequest dynamoDbPutItem sampleMessage =
      Inr (PutItem ''PipesTestTable''
        [ (''pk'', AttrS ''WDATA#CITY#Tampere#2023-10-15''),
          (''sk'', AttrS ''2023-10-15T17:00:58+03:00''),
          (''type'', AttrS ''WeatherData''),
          (''inspectTime'', AttrS ''2023-10-15T17:00:58+03:00''),
          (''tempCelcius'', AttrN ''5.1''),
          (''humidityPercent'', AttrN ''58'') ])
   \<and> map_of
        [ (''pk'', AttrS ''WDATA#CITY#Tampere#2023-10-15''),
          (''sk'', AttrS ''2023-10-15T17:00:58+03:00''),
          (''type'', AttrS ''WeatherData''),
          (''inspectTime'', AttrS ''2023-10-15T17:00:58+03:00''),
          (''tempCelcius'', AttrN ''5.1''),
          (''humidityPercent'', AttrN ''58'') ] ''ttl'' = None
   \<and> timeToLiveAttribute (tbl (PipesTestStack ''PipesTestStack'' None)) = Some ''ttl''"
proof (intro conjI)
  show "putItemRequest dynamoDbPutItem sampleMessage =
      Inr (PutItem ''PipesTestTable''
        [ (''pk'', AttrS ''WDATA#CITY#Tampere#2023-10-15''),
          (''sk'', AttrS ''2023-10-15T17:00:58+03:00''),
          (''type'', AttrS ''WeatherData''),
          (''inspectTime'', AttrS ''2023-10-15T17:00:58+03:00''),
          (''tempCelcius'', AttrN ''5.1''),
          (''humidityPercent'', AttrN ''58'') ])"
    using putItemRequest_accepted [OF sample_fields] by simp
qed (simp_all add: PipesTestStack_def)

text \<open>
  C1, amended. Every record written has exactly the attributes \<open>pk\<close>, \<open>sk\<close>, \<open>type\<close>,
  \<open>inspectTime\<close>, \<open>tempCelcius\<close> and \<open>humidityPercent\<close>: the composite key, the type
  tag, the inspection time and the two measurements. It has no attribute \<open>ttl\<close>; that
  name is only declared as the table's time-to-live attribute. A record is written for
  every accepted message.
\<close>

theorem written_item_attributes:
  "(acceptedMessage m \<longrightarrow>
      (\<exists>it. putItemRequest dynamoDbPutItem m = Inr (PutItem ''PipesTestTable'' it)))
   \<and> (\<forall>t it. putItemRequest dynamoDbPutItem m = Inr (PutItem t it) \<longrightarrow>
        map fst it =
          [''pk'', ''sk'', ''type'', ''inspectTime'', ''tempCelcius'', ''humidityPercent'']
        \<and> map_of it ''ttl'' = None)
   \<and> map fst (item dynamoDbPutItem) =
        [''pk'', ''sk'', ''type'', ''inspectTime'', ''tempCelcius'', ''humidityPercent'']
   \<and> timeToLiveAttribute (tbl (PipesTestStack ident props)) = Some ''ttl''"
proof (intro conjI allI impI)
  assume "acceptedMessage m"
  then show "\<exists>it. putItemRequest dynamoDbPutItem m = Inr (PutItem ''PipesTestTable'' it)"
    by (rule accepted_fields) (simp add: putItemRequest_accepted)
next
  fix t it
  assume "putItemRequest dynamoDbPutItem m = Inr (PutItem t it)"
  from putItemRequest_written [OF this]
  obtain k s tc h where
    it: "it = [ (''pk'', AttrS k), (''sk'', AttrS s), (''type'', AttrS ''WeatherData''),
        (''inspectTime'', AttrS s), (''tempCelcius'', AttrN tc), (''humidityPercent'', AttrN h) ]"
    by auto
  show "map fst it =
          [''pk'', ''sk'', ''type'', ''inspectTime'', ''tempCelcius'', ''humidityPercent'']"
    by (simp add: it)
  show "map_of it ''ttl'' = None"
    by (simp add: it)
next
  show "map fst (item dynamoDbPutItem) =
        [''pk'', ''sk'', ''type'', ''inspectTime'', ''tempCelcius'', ''humidityPercent'']"
    by (simp add: dynamoDbPutItem_def)
  show "timeToLiveAttribute (tbl (PipesTestStack ident props)) = Some ''ttl''"
    by (simp add: PipesTestStack_def)
qed

text \<open>C1, amended, at the README's message.\<close>

theorem written_item_attributes_sample:
  "\<exists>it. putItemRequest dynamoDbPutItem sampleMessage = Inr (PutItem ''PipesTestTable'' it)
     \<and> map fst it =
          [''pk'', ''sk'', ''type'', ''inspectTime'', ''tempCelcius'', ''humidityPercent'']
     \<and> map_of it ''ttl'' = None"
proof -
  note attrs = written_item_attributes [of sampleMessage]
  from attrs sample_accepted obtain it
    where "putItemRequest dynamoDbPutItem sampleMessage = Inr (PutItem ''PipesTestTable'' it)"
    by blast
  with attrs show ?thesis
    by blast
qed

section \<open>Executions of the state machine\<close>

subsection \<open>Iterations\<close>

lemma untilFailure_all_served:
  "(\<And>x. x \<in> set xs \<Longrightarrow> f x = ([g x], Inr (out x))) \<Longrightarrow>
     untilFailure (map f xs) = (map g xs, Inr (map out xs))"
  by (induction xs) auto

lemma untilFailure_requests:
  "(\<And>x. x \<in> set xs \<Longrightarrow> list_all P (fst (f x))) \<Longrightarrow>
     list_all P (fst (untilFailure (map f xs)))"
proof (induction xs)
  case Nil
  then show ?case by simp
next
  case (Cons x xs)
  obtain rs r where fx: "f x = (rs, r)"
    by (cases "f x")
  obtain rs' r' where rest: "untilFailure (map f xs) = (rs', r')"
    by (cases "untilFailure (map f xs)")
  from Cons.prems [of x] fx have "list_all P rs"
    by simp
  moreover from Cons.IH Cons.prems rest have "list_all P rs'"
    by simp
  ultimately show ?case
    using fx rest by (cases r; cases r') simp_all
qed

lemma untilFailure_length:
  "(\<And>x. x \<in> set xs \<Longrightarrow> length (fst (f x)) \<le> 1) \<Longrightarrow>
     length (fst (untilFailure (map f xs))) \<le> length xs"
proof (induction xs)
  case Nil
  then show ?case by simp
next
  case (Cons x xs)
  obtain rs r where fx: "f x = (rs, r)"
    by (cases "f x")
  obtain rs' r' where rest: "untilFailure (map f xs) = (rs', r')"
    by (cases "untilFailure (map f xs)")
  from Cons.prems [of x] fx have "length rs \<le> 1"
    by simp
  moreover from Cons.IH Cons.prems rest have "length rs' \<le> length xs"
    by simp
  ultimately show ?case
    using fx rest by (cases r; cases r') simp_all
qed

lemma putItemRequest_isPutItem: "putItemRequest p m = Inr r \<Longrightarrow> isPutItem r"
  by (auto simp: putItemRequest_def map_sum_def split: sum.splits)

lemma iteration_requests:
  "list_all isPutItem (fst (execChain service [DynamoPutItem p] x))
   \<and> length (fst (execChain service [DynamoPutItem p] x)) \<le> 1"
  by (cases "putItemRequest p x")
     (auto simp: callService_def putItemRequest_isPutItem split: sum.splits prod.splits)

lemma passState_exec:
  "execChain service passState input =
     (case untilFailure (map (execChain service [DynamoPutItem dynamoDbPutItem]) (deepScan ''body'' input)) of
        (rs, Inl e) \<Rightarrow> (rs, Inl e)
      | (rs, Inr outs) \<Rightarrow> (rs, Inr (JArr outs)))"
  by (simp add: passState_def mapState_def split: prod.splits sum.splits)

lemma deepScan_batch:
  "list_all (\<lambda>m. deepScan k m = []) ms \<Longrightarrow>
     deepScan k (JArr (map (\<lambda>m. JObj [(k, m)]) ms)) = ms"
  by (induction ms) auto

lemma collect_all_ok: "collect (map Inr xs) = Inr xs"
  by (induction xs) auto

subsection \<open>The stack's definition\<close>

lemma stateMachine_definition:
  "definitionBody (stateMachine (PipesTestStack ident props)) = passState"
  by (simp add: PipesTestStack_def)

lemma iteration_served:
  assumes "acceptedMessage m" and "\<And>r. \<not> isl (service r)"
  shows "\<exists>req out. putItemRequest dynamoDbPutItem m = Inr req
           \<and> execChain service [DynamoPutItem dynamoDbPutItem] m = ([req], Inr out)"
proof -
  from assms(1) obtain req where req: "putItemRequest dynamoDbPutItem m = Inr req"
    using accepted_written by blast
  from assms(2) [of req] obtain out where "service req = Inr out"
    by (cases "service req") simp_all
  with req show ?thesis
    by (simp add: callService_def)
qed

text \<open>
  When every element of the extracted body is an accepted message and the table serves
  every request, the requests sent are the put-item requests of the elements, in order.
\<close>

lemma accepted_execution:
  assumes "list_all acceptedMessage (deepScan ''body'' input)"
    and "\<And>r. \<not> isl (service r)"
  shows "map Inr (fst (startExecution (PipesTestStack ident props) service input))
           = map (putItemRequest dynamoDbPutItem) (deepScan ''body'' input)
         \<and> length (fst (startExecution (PipesTestStack ident props) service input))
           = length (deepScan ''body'' input)
         \<and> list_all isPutItem (fst (startExecution (PipesTestStack ident props) service input))
         \<and> \<not> isl (snd (startExecution (PipesTestStack ident props) service input))"
proof -
  define elems where "elems = deepScan ''body'' input"
  define g where "g = (\<lambda>m. projr (putItemRequest dynamoDbPutItem m))"
  define out where "out = (\<lambda>m. projr (service (g m)))"
  have step: "execChain service [DynamoPutItem dynamoDbPutItem] m = ([g m], Inr (out m))"
    and req: "putItemRequest dynamoDbPutItem m = Inr (g m)" if "m \<in> set elems" for m
  proof -
    from that assms(1) have "acceptedMessage m"
      by (simp add: elems_def list_all_iff)
    then have "\<exists>req out. putItemRequest dynamoDbPutItem m = Inr req
           \<and> execChain service [DynamoPutItem dynamoDbPutItem] m = ([req], Inr out)"
      using assms(2) by (rule iteration_served)
    then obtain r o' where r: "putItemRequest dynamoDbPutItem m = Inr r"
      and e: "execChain service [DynamoPutItem dynamoDbPutItem] m = ([r], Inr o')"
      by blast
    from r show "putItemRequest dynamoDbPutItem m = Inr (g m)"
      by (simp add: g_def)
    from r e show "execChain service [DynamoPutItem dynamoDbPutItem] m = ([g m], Inr (out m))"
      by (auto simp: g_def out_def callService_def split: sum.splits)
  qed
  from step have "untilFailure (map (execChain service [DynamoPutItem dynamoDbPutItem]) elems)
      = (map g elems, Inr (map out elems))"
    by (rule untilFailure_all_served)
  then have run: "startExecution (PipesTestStack ident props) service input
      = (map g elems, Inr (JArr (map out elems)))"
    by (simp add: startExecution_def stateMachine_definition passState_exec elems_def)
  have puts: "map Inr (map g elems) = map (putItemRequest dynamoDbPutItem) elems"
    using req by simp
  have "list_all isPutItem (map g elems)"
    using req by (auto simp: list_all_iff intro: putItemRequest_isPutItem)
  with run puts show ?thesis
    by (simp add: elems_def [symmetric])
qed

text \<open>
  Whatever the input and the table's answers, every request sent is a put-item, and
  there are at most as many as elements in the extracted body.
\<close>

lemma any_execution:
  "list_all isPutItem (fst (startExecution (PipesTestStack ident props) service input))
   \<and> length (fst (startExecution (PipesTestStack ident props) service input))
       \<le> length (deepScan ''body'' input)"
proof -
  let ?outcomes = "map (execChain service [DynamoPutItem dynamoDbPutItem]) (deepScan ''body'' input)"
  have run: "fst (startExecution (PipesTestStack ident props) service input)
      = fst (untilFailure ?outcomes)"
    by (simp add: startExecution_def stateMachine_definition passState_exec
        split: prod.splits sum.splits)
  have "list_all isPutItem (fst (untilFailure ?outcomes))"
    by (rule untilFailure_requests) (rule conjunct1 [OF iteration_requests])
  moreover have "length (fst (untilFailure ?outcomes)) \<le> length (deepScan ''body'' input)"
    by (rule untilFailure_length) (rule conjunct2 [OF iteration_requests])
  ultimately show ?thesis
    by (simp add: run)
qed

subsection \<open>From a batch of events to the workflow's input\<close>

lemma transformEvent_body:
  "field ''body'' event = Some m \<Longrightarrow>
     transformEvent (pipe (PipesTestStack ident props)) event = Inr (JObj [(''body'', m)])"
  by (simp add: transformEvent_def PipesTestStack_def)

lemma targetInput_batch:
  "map (field ''body'') events = map Some msgs \<Longrightarrow>
     targetInput (pipe (PipesTestStack ident props)) events
       = Inr (JArr (map (\<lambda>m. JObj [(''body'', m)]) msgs))"
proof -
  assume bodies: "map (field ''body'') events = map Some msgs"
  then have "map (transformEvent (pipe (PipesTestStack ident props))) events
      = map Inr (map (\<lambda>m. JObj [(''body'', m)]) msgs)"
  proof (induction events arbitrary: msgs)
    case Nil
    then show ?case by simp
  next
    case (Cons e es)
    then obtain m ms where "msgs = m # ms" "field ''body'' e = Some m"
      "map (field ''body'') es = map Some ms"
      by (cases msgs) auto
    with Cons.IH [of ms] show ?case
      by (simp add: transformEvent_body)
  qed
  then show ?thesis
    by (simp only: targetInput_def collect_all_ok) simp
qed

lemma sampleMessage_no_body: "deepScan ''body'' sampleMessage = []"
  by (simp add: sampleMessage_def)

lemma sampleInput_body: "deepScan ''body'' sampleInput = [sampleMessage, sampleMessage]"
  by (simp add: sampleInput_def sampleMessage_no_body)

subsection \<open>One write for each element\<close>

text \<open>
  C4, as stated, fails: for the input whose extracted body is the one message of the
  source's comment, with numbers for measurements, the execution fails and nothing is
  written.
\<close>

theorem comment_input_not_written:
  "deepScan ''body'' commentInput = [commentMessage]
   \<and> startExecution (PipesTestStack ''PipesTestStack'' None) served commentInput
       = ([], Inl NotAString)"
proof (intro conjI)
  show "deepScan ''body'' commentInput = [commentMessage]"
    by (simp add: commentInput_def commentMessage_def)
  then show "startExecution (PipesTestStack ''PipesTestStack'' None) served commentInput
       = ([], Inl NotAString)"
    by (simp add: startExecution_def stateMachine_definition passState_exec
        number_rejected callService_def)
qed

text \<open>
  C4, amended. For every workflow input whose extracted body consists of n elements,
  each an accepted message, and a table that serves every request, the workflow sends
  exactly n put-item requests, the one of each element in order, and succeeds: the pass
  state extracts the body, the map state iterates over its elements.
\<close>

theorem one_write_per_element:
  assumes "list_all acceptedMessage (deepScan ''body'' input)"
    and "\<And>r. \<not> isl (service r)"
  shows "map Inr (fst (startExecution (PipesTestStack ident props) service input))
           = map (putItemRequest dynamoDbPutItem) (deepScan ''body'' input)
         \<and> length (fst (startExecution (PipesTestStack ident props) service input))
           = length (deepScan ''body'' input)
         \<and> list_all isPutItem (fst (startExecution (PipesTestStack ident props) service input))
         \<and> \<not> isl (snd (startExecution (PipesTestStack ident props) service input))"
  using assms by (rule accepted_execution)

text \<open>C4, amended, at an input of two messages.\<close>

theorem one_write_per_element_sample:
  "length (deepScan ''body'' sampleInput) = 2
   \<and> length (fst (startExecution (PipesTestStack ''PipesTestStack'' None) served sampleInput)) = 2
   \<and> map Inr (fst (startExecution (PipesTestStack ''PipesTestStack'' None) served sampleInput))
       = [putItemRequest dynamoDbPutItem sampleMessage, putItemRequest dynamoDbPutItem sampleMessage]"
proof -
  have acc: "list_all acceptedMessage (deepScan ''body'' sampleInput)"
    by (simp add: sampleInput_body sample_accepted)
  have ok: "\<not> isl (served r)" for r
    by (simp add: served_def)
  from one_write_per_element [of sampleInput served, OF acc ok]
  show ?thesis
    by (simp add: sampleInput_body)
qed

subsection \<open>The key\<close>

lemma single_execution:
  assumes "field ''city'' m = Some (JStr c)"
    and "field ''date'' m = Some (JStr d)"
    and "field ''inspectTime'' m = Some (JStr t)"
    and "field ''tempCelcius'' m = Some (JStr tc)"
    and "field ''humidityPercent'' m = Some (JStr h)"
    and "deepScan ''body'' input = [m]"
    and "\<And>r. \<not> isl (service r)"
  shows "fst (startExecution (PipesTestStack ident props) service input) =
    [PutItem ''PipesTestTable''
      [ (''pk'', AttrS (''WDATA#CITY#'' @ c @ ''#'' @ d)),
        (''sk'', AttrS t),
        (''type'', AttrS ''WeatherData''),
        (''inspectTime'', AttrS t),
        (''tempCelcius'', AttrN tc),
        (''humidityPercent'', AttrN h) ]]"
proof -
  from assms(1-5) have "acceptedMessage m"
    by (simp add: acceptedMessage_def)
  with assms(6) have "list_all acceptedMessage (deepScan ''body'' input)"
    by simp
  then have "map Inr (fst (startExecution (PipesTestStack ident props) service input))
      = map (putItemRequest dynamoDbPutItem) (deepScan ''body'' input)"
    using assms(7) accepted_execution by blast
  with assms(1-6) show ?thesis
    by (simp add: putItemRequest_accepted map_eq_Cons_conv)
qed

lemma comment_fields:
  "field ''city'' commentMessage = Some (JStr ''Tampere'')"
  "field ''date'' commentMessage = Some (JStr ''yyyy-mm-dd'')"
  "field ''inspectTime'' commentMessage = Some (JStr ''yyyy-mm-ddThh:mm:ss'')"
  by (simp_all add: commentMessage_def field_def)

lemma commentInput_body: "deepScan ''body'' commentInput = [commentMessage]"
  by (simp add: commentInput_def commentMessage_def)

lemma commentInput_execution:
  "startExecution (PipesTestStack ident props) service commentInput = ([], Inl NotAString)"
  by (simp add: startExecution_def stateMachine_definition passState_exec
      commentInput_body number_rejected callService_def)

text \<open>
  C3, as stated, fails: the message of the source's comment has \<open>city\<close>, \<open>date\<close> and
  \<open>inspectTime\<close>, and no record is written for it, its measurements being numbers.
\<close>

theorem comment_message_no_record:
  "field ''city'' commentMessage = Some (JStr ''Tampere'')
   \<and> field ''date'' commentMessage = Some (JStr ''yyyy-mm-dd'')
   \<and> field ''inspectTime'' commentMessage = Some (JStr ''yyyy-mm-ddThh:mm:ss'')
   \<and> putItemRequest dynamoDbPutItem commentMessage = Inl NotAString
   \<and> deepScan ''body'' commentInput = [commentMessage]
   \<and> fst (startExecution (PipesTestStack ''PipesTestStack'' None) served commentInput) = []"
  by (simp add: comment_fields number_rejected commentInput_body commentInput_execution)

text \<open>
  C3, amended. For every message whose \<open>city\<close>, \<open>date\<close> and \<open>inspectTime\<close> are
  strings and whose two measurements are strings as well, the put-item task builds a
  record with the partition key \<open>WDATA#CITY#\<close>, the city, \<open>#\<close> and the date, and the
  sort key \<open>inspectTime\<close>; an execution of the stack's state machine on an input whose
  extracted body is that message sends this record to a table that serves it.
\<close>

theorem composite_key:
  assumes "field ''city'' m = Some (JStr city)"
    and "field ''date'' m = Some (JStr date)"
    and "field ''inspectTime'' m = Some (JStr inspectTime)"
    and "isString (field ''tempCelcius'' m)"
    and "isString (field ''humidityPercent'' m)"
  shows "\<exists>it. putItemRequest dynamoDbPutItem m = Inr (PutItem ''PipesTestTable'' it)
           \<and> map_of it ''pk'' = Some (AttrS (''WDATA#CITY#'' @ city @ ''#'' @ date))
           \<and> map_of it ''sk'' = Some (AttrS inspectTime)
           \<and> (\<forall>input service.
                 deepScan ''body'' input = [m] \<and> (\<forall>r. \<not> isl (service r)) \<longrightarrow>
                 fst (startExecution (PipesTestStack ident props) service input)
                   = [PutItem ''PipesTestTable'' it])"
proof -
  from assms(4,5) obtain tc h where tc: "field ''tempCelcius'' m = Some (JStr tc)"
    and h: "field ''humidityPercent'' m = Some (JStr h)"
    unfolding isString_iff by blast
  let ?it = "[ (''pk'', AttrS (''WDATA#CITY#'' @ city @ ''#'' @ date)),
        (''sk'', AttrS inspectTime),
        (''type'', AttrS ''WeatherData''),
        (''inspectTime'', AttrS inspectTime),
        (''tempCelcius'', AttrN tc),
        (''humidityPercent'', AttrN h) ]"
  have "putItemRequest dynamoDbPutItem m = Inr (PutItem ''PipesTestTable'' ?it)"
    using assms(1-3) tc h by (rule putItemRequest_accepted)
  moreover have "map_of ?it ''pk'' = Some (AttrS (''WDATA#CITY#'' @ city @ ''#'' @ date))"
    by simp
  moreover have "map_of ?it ''sk'' = Some (AttrS inspectTime)"
    by simp
  moreover have "fst (startExecution (PipesTestStack ident props) service input)
      = [PutItem ''PipesTestTable'' ?it]"
    if "deepScan ''body'' input = [m] \<and> (\<forall>r. \<not> isl (service r))" for input service
    using that assms(1-3) tc h single_execution [of m city date inspectTime tc h input service]
    by blast
  ultimately show ?thesis
    by blast
qed

text \<open>C3, amended, at the README's message.\<close>

theorem composite_key_sample:
  "\<exists>it. putItemRequest dynamoDbPutItem sampleMessage = Inr (PutItem ''PipesTestTable'' it)
     \<and> map_of it ''pk'' = Some (AttrS ''WDATA#CITY#Tampere#2023-10-15'')
     \<and> map_of it ''sk'' = Some (AttrS ''2023-10-15T17:00:58+03:00'')
     \<and> fst (startExecution (PipesTestStack ''PipesTestStack'' None) served
              (JArr [JObj [(''body'', sampleMessage)]]))
         = [PutItem ''PipesTestTable'' it]"
proof -
  have scan: "deepScan ''body'' (JArr [JObj [(''body'', sampleMessage)]]) = [sampleMessage]"
    by (simp add: sampleMessage_no_body)
  have ok: "\<forall>r. \<not> isl (served r)"
    by (simp add: served_def)
  from composite_key [of sampleMessage "''Tampere''" "''2023-10-15''"
      "''2023-10-15T17:00:58+03:00''" "''PipesTestStack''" None]
  obtain it where "putItemRequest dynamoDbPutItem sampleMessage = Inr (PutItem ''PipesTestTable'' it)"
    and "map_of it ''pk'' = Some (AttrS (''WDATA#CITY#'' @ ''Tampere'' @ ''#'' @ ''2023-10-15''))"
    and "map_of it ''sk'' = Some (AttrS ''2023-10-15T17:00:58+03:00'')"
    and "\<forall>input service.
                 deepScan ''body'' input = [sampleMessage] \<and> (\<forall>r. \<not> isl (service r)) \<longrightarrow>
                 fst (startExecution (PipesTestStack ''PipesTestStack'' None) service input)
                   = [PutItem ''PipesTestTable'' it]"
    by (auto simp: sample_fields)
  with scan ok show ?thesis
    by auto
qed

subsection \<open>No other table operation\<close>

lemma put_keeps_keys:
  "set (map (primaryKey t) items) \<subseteq> set (map (primaryKey t) (applyRequest t items (PutItem n it)))"
  by auto

lemma puts_keep_keys:
  "list_all isPutItem reqs \<Longrightarrow>
     set (map (primaryKey t) items) \<subseteq> set (map (primaryKey t) (foldl (applyRequest t) items reqs))"
proof (induction reqs arbitrary: items)
  case Nil
  then show ?case by simp
next
  case (Cons r reqs)
  then obtain n it where r: "r = PutItem n it"
    by (cases r) simp_all
  from Cons.prems have "list_all isPutItem reqs"
    by simp
  from Cons.IH [OF this, of "applyRequest t items r"] put_keeps_keys [of t items n it] r
  show ?case
    by (auto simp del: applyRequest.simps)
qed

lemma table_primaryKey:
  "primaryKey (tbl (PipesTestStack ident props)) it = (map_of it ''pk'', map_of it ''sk'')"
  by (simp add: primaryKey_def PipesTestStack_def)

lemma put_replaces:
  "filter (\<lambda>old. primaryKey t old = primaryKey t it) (applyRequest t items (PutItem n it)) = [it]"
  by (induction items) auto

lemma commentEvent_input:
  "targetInput (pipe (PipesTestStack ident props)) [commentEvent] = Inr commentInput"
proof -
  have "map (field ''body'') [commentEvent] = map Some [commentMessage]"
    by (simp add: commentEvent_def field_def)
  then show ?thesis
    by (simp only: targetInput_batch commentInput_def) simp
qed

lemma later_fields:
  "field ''city'' laterMessage = Some (JStr ''Tampere'')"
  "field ''date'' laterMessage = Some (JStr ''2023-10-15'')"
  "field ''inspectTime'' laterMessage = Some (JStr ''2023-10-15T17:00:58+03:00'')"
  "field ''tempCelcius'' laterMessage = Some (JStr ''6.3'')"
  "field ''humidityPercent'' laterMessage = Some (JStr ''58'')"
  by (simp_all add: laterMessage_def field_def)

lemma overwriteInput_requests:
  "fst (startExecution (PipesTestStack ident props) served overwriteInput) =
    [ PutItem ''PipesTestTable''
        [ (''pk'', AttrS ''WDATA#CITY#Tampere#2023-10-15''),
          (''sk'', AttrS ''2023-10-15T17:00:58+03:00''),
          (''type'', AttrS ''WeatherData''),
          (''inspectTime'', AttrS ''2023-10-15T17:00:58+03:00''),
          (''tempCelcius'', AttrN ''5.1''),
          (''humidityPercent'', AttrN ''58'') ],
      PutItem ''PipesTestTable''
        [ (''pk'', AttrS ''WDATA#CITY#Tampere#2023-10-15''),
          (''sk'', AttrS ''2023-10-15T17:00:58+03:00''),
          (''type'', AttrS ''WeatherData''),
          (''inspectTime'', AttrS ''2023-10-15T17:00:58+03:00''),
          (''tempCelcius'', AttrN ''6.3''),
          (''humidityPercent'', AttrN ''58'') ] ]"
proof -
  have scan: "deepScan ''body'' overwriteInput = [sampleMessage, laterMessage]"
    by (simp add: overwriteInput_def sampleMessage_def laterMessage_def)
  have "acceptedMessage laterMessage"
    by (simp add: acceptedMessage_def later_fields)
  with scan have "list_all acceptedMessage (deepScan ''body'' overwriteInput)"
    by (simp add: sample_accepted)
  moreover have "\<not> isl (served r)" for r
    by (simp add: served_def)
  ultimately have "map Inr (fst (startExecution (PipesTestStack ident props) served overwriteInput))
      = map (putItemRequest dynamoDbPutItem) (deepScan ''body'' overwriteInput)"
    using accepted_execution by blast
  then show ?thesis
    using putItemRequest_accepted [OF sample_fields] putItemRequest_accepted [OF later_fields]
    by (simp add: scan map_eq_Cons_conv)
qed

text \<open>
  C6, as stated, fails. One message received, the one of the source's comment, creates
  no record. Two messages received with the same city, date and inspection time leave
  one record in a table that was empty: the put-item of the second replaces the record
  of the first.
\<close>

theorem message_without_record_and_record_replaced:
  "targetInput (pipe (PipesTestStack ''PipesTestStack'' None)) [commentEvent] = Inr commentInput
   \<and> fst (startExecution (PipesTestStack ''PipesTestStack'' None) served commentInput) = []
   \<and> deepScan ''body'' overwriteInput = [sampleMessage, laterMessage]
   \<and> foldl (applyRequest (tbl (PipesTestStack ''PipesTestStack'' None))) []
        (fst (startExecution (PipesTestStack ''PipesTestStack'' None) served overwriteInput))
      = [ [ (''pk'', AttrS ''WDATA#CITY#Tampere#2023-10-15''),
            (''sk'', AttrS ''2023-10-15T17:00:58+03:00''),
            (''type'', AttrS ''WeatherData''),
            (''inspectTime'', AttrS ''2023-10-15T17:00:58+03:00''),
            (''tempCelcius'', AttrN ''6.3''),
            (''humidityPercent'', AttrN ''58'') ] ]"
proof (intro conjI)
  show "targetInput (pipe (PipesTestStack ''PipesTestStack'' None)) [commentEvent] = Inr commentInput"
    by (rule commentEvent_input)
  show "fst (startExecution (PipesTestStack ''PipesTestStack'' None) served commentInput) = []"
    by (simp add: commentInput_execution)
  show "deepScan ''body'' overwriteInput = [sampleMessage, laterMessage]"
    by (simp add: overwriteInput_def sampleMessage_def laterMessage_def)
  show "foldl (applyRequest (tbl (PipesTestStack ''PipesTestStack'' None))) []
        (fst (startExecution (PipesTestStack ''PipesTestStack'' None) served overwriteInput))
      = [ [ (''pk'', AttrS ''WDATA#CITY#Tampere#2023-10-15''),
            (''sk'', AttrS ''2023-10-15T17:00:58+03:00''),
            (''type'', AttrS ''WeatherData''),
            (''inspectTime'', AttrS ''2023-10-15T17:00:58+03:00''),
            (''tempCelcius'', AttrN ''6.3''),
            (''humidityPercent'', AttrN ''58'') ] ]"
    by (simp add: overwriteInput_requests table_primaryKey)
qed

text \<open>
  C6, amended. The only table task of the definition is the put-item task: every
  request an execution sends is a put-item, never an update or a delete, at most one
  for each element of the extracted body, and no key the table holds is lost. For a
  batch of events whose bodies are accepted messages (with no member named \<open>body\<close>
  inside) and a table that serves every request, there is exactly one put-item for each
  message received. The put-item is unconditional: after the execution for a message,
  the table holds that message's record under its key and no other, whatever it held
  under that key before.
\<close>

theorem only_put_item:
  "concat (map tableTasks (definitionBody (stateMachine (PipesTestStack ident props))))
     = [DynamoPutItem dynamoDbPutItem]
   \<and> list_all isPutItem (fst (startExecution (PipesTestStack ident props) service input))
   \<and> length (fst (startExecution (PipesTestStack ident props) service input))
       \<le> length (deepScan ''body'' input)
   \<and> set (map (primaryKey (tbl (PipesTestStack ident props))) items)
       \<subseteq> set (map (primaryKey (tbl (PipesTestStack ident props)))
             (foldl (applyRequest (tbl (PipesTestStack ident props))) items
                (fst (startExecution (PipesTestStack ident props) service input))))
   \<and> (map (field ''body'') events = map Some msgs
        \<and> list_all acceptedMessage msgs
        \<and> list_all (\<lambda>m. deepScan ''body'' m = []) msgs
        \<and> (\<forall>r. \<not> isl (service r))
      \<longrightarrow> (\<exists>batch. targetInput (pipe (PipesTestStack ident props)) events = Inr batch
             \<and> map Inr (fst (startExecution (PipesTestStack ident props) service batch))
                 = map (putItemRequest dynamoDbPutItem) msgs))
   \<and> (field ''city'' m = Some (JStr c) \<and> field ''date'' m = Some (JStr d)
        \<and> field ''inspectTime'' m = Some (JStr t)
        \<and> field ''tempCelcius'' m = Some (JStr tc)
        \<and> field ''humidityPercent'' m = Some (JStr h)
        \<and> deepScan ''body'' single = [m]
        \<and> (\<forall>r. \<not> isl (service r))
      \<longrightarrow> filter (\<lambda>old. primaryKey (tbl (PipesTestStack ident props)) old
                    = (Some (AttrS (''WDATA#CITY#'' @ c @ ''#'' @ d)), Some (AttrS t)))
            (foldl (applyRequest (tbl (PipesTestStack ident props))) items
               (fst (startExecution (PipesTestStack ident props) service single)))
          = [ [ (''pk'', AttrS (''WDATA#CITY#'' @ c @ ''#'' @ d)),
                (''sk'', AttrS t),
                (''type'', AttrS ''WeatherData''),
                (''inspectTime'', AttrS t),
                (''tempCelcius'', AttrN tc),
                (''humidityPercent'', AttrN h) ] ])"
proof (intro conjI impI)
  show "concat (map tableTasks (definitionBody (stateMachine (PipesTestStack ident props))))
     = [DynamoPutItem dynamoDbPutItem]"
    by (simp add: stateMachine_definition passState_def mapState_def)
  show "list_all isPutItem (fst (startExecution (PipesTestStack ident props) service input))"
    by (simp add: any_execution)
  show "length (fst (startExecution (PipesTestStack ident props) service input))
       \<le> length (deepScan ''body'' input)"
    by (simp add: any_execution)
  show "set (map (primaryKey (tbl (PipesTestStack ident props))) items)
       \<subseteq> set (map (primaryKey (tbl (PipesTestStack ident props)))
             (foldl (applyRequest (tbl (PipesTestStack ident props))) items
                (fst (startExecution (PipesTestStack ident props) service input))))"
    by (rule puts_keep_keys) (simp add: any_execution)
next
  let ?batch = "JArr (map (\<lambda>m. JObj [(''body'', m)]) msgs)"
  assume "map (field ''body'') events = map Some msgs
        \<and> list_all acceptedMessage msgs
        \<and> list_all (\<lambda>m. deepScan ''body'' m = []) msgs
        \<and> (\<forall>r. \<not> isl (service r))"
  then have bodies: "map (field ''body'') events = map Some msgs"
    and acc: "list_all acceptedMessage msgs"
    and flat: "list_all (\<lambda>m. deepScan ''body'' m = []) msgs"
    and ok: "\<And>r. \<not> isl (service r)"
    by simp_all
  from flat have scan: "deepScan ''body'' ?batch = msgs"
    by (rule deepScan_batch)
  with acc have "list_all acceptedMessage (deepScan ''body'' ?batch)"
    by simp
  then have "map Inr (fst (startExecution (PipesTestStack ident props) service ?batch))
      = map (putItemRequest dynamoDbPutItem) (deepScan ''body'' ?batch)"
    using ok accepted_execution by blast
  with scan bodies
  show "\<exists>batch. targetInput (pipe (PipesTestStack ident props)) events = Inr batch
             \<and> map Inr (fst (startExecution (PipesTestStack ident props) service batch))
                 = map (putItemRequest dynamoDbPutItem) msgs"
    by (simp add: targetInput_batch)
next
  let ?it = "[ (''pk'', AttrS (''WDATA#CITY#'' @ c @ ''#'' @ d)),
                (''sk'', AttrS t),
                (''type'', AttrS ''WeatherData''),
                (''inspectTime'', AttrS t),
                (''tempCelcius'', AttrN tc),
                (''humidityPercent'', AttrN h) ]"
  let ?T = "tbl (PipesTestStack ident props)"
  assume "field ''city'' m = Some (JStr c) \<and> field ''date'' m = Some (JStr d)
        \<and> field ''inspectTime'' m = Some (JStr t)
        \<and> field ''tempCelcius'' m = Some (JStr tc)
        \<and> field ''humidityPercent'' m = Some (JStr h)
        \<and> deepScan ''body'' single = [m]
        \<and> (\<forall>r. \<not> isl (service r))"
  then have run: "fst (startExecution (PipesTestStack ident props) service single)
      = [PutItem ''PipesTestTable'' ?it]"
    using single_execution [of m c d t tc h single service ident props] by blast
  have key: "primaryKey ?T ?it = (Some (AttrS (''WDATA#CITY#'' @ c @ ''#'' @ d)), Some (AttrS t))"
    by (simp add: table_primaryKey)
  from put_replaces [of ?T ?it items "''PipesTestTable''"]
  show "filter (\<lambda>old. primaryKey ?T old
                    = (Some (AttrS (''WDATA#CITY#'' @ c @ ''#'' @ d)), Some (AttrS t)))
            (foldl (applyRequest ?T) items
               (fst (startExecution (PipesTestStack ident props) service single)))
          = [?it]"
    by (simp only: run key foldl.simps)
qed

text \<open>
  C6, amended, at a batch of two events, and at a table that already holds an item
  with the key of the README's message.
\<close>

theorem only_put_item_sample:
  "(\<exists>batch. targetInput (pipe (PipesTestStack ''PipesTestStack'' None)) [sampleEvent, sampleEvent]
        = Inr batch
     \<and> map Inr (fst (startExecution (PipesTestStack ''PipesTestStack'' None) served batch))
        = [putItemRequest dynamoDbPutItem sampleMessage, putItemRequest dynamoDbPutItem sampleMessage])
   \<and> filter (\<lambda>old. primaryKey (tbl (PipesTestStack ''PipesTestStack'' None)) old
                = (Some (AttrS ''WDATA#CITY#Tampere#2023-10-15''),
                   Some (AttrS ''2023-10-15T17:00:58+03:00'')))
        (foldl (applyRequest (tbl (PipesTestStack ''PipesTestStack'' None)))
           [ [ (''pk'', AttrS ''WDATA#CITY#Tampere#2023-10-15''),
               (''sk'', AttrS ''2023-10-15T17:00:58+03:00''),
               (''tempCelcius'', AttrN ''6.3'') ] ]
           (fst (startExecution (PipesTestStack ''PipesTestStack'' None) served
                  (JArr [JObj [(''body'', sampleMessage)]]))))
      = [ [ (''pk'', AttrS ''WDATA#CITY#Tampere#2023-10-15''),
            (''sk'', AttrS ''2023-10-15T17:00:58+03:00''),
            (''type'', AttrS ''WeatherData''),
            (''inspectTime'', AttrS ''2023-10-15T17:00:58+03:00''),
            (''tempCelcius'', AttrN ''5.1''),
            (''humidityPercent'', AttrN ''58'') ] ]"
proof -
  have bodies: "map (field ''body'') [sampleEvent, sampleEvent] = map Some [sampleMessage, sampleMessage]"
    by (simp add: sampleEvent_def field_def)
  have acc: "list_all acceptedMessage [sampleMessage, sampleMessage]"
    by (simp add: sample_accepted)
  have flat: "list_all (\<lambda>m. deepScan ''body'' m = []) [sampleMessage, sampleMessage]"
    by (simp add: sampleMessage_no_body)
  have ok: "\<forall>r. \<not> isl (served r)"
    by (simp add: served_def)
  have scan: "deepScan ''body'' (JArr [JObj [(''body'', sampleMessage)]]) = [sampleMessage]"
    by (simp add: sampleMessage_no_body)
  from only_put_item [of "''PipesTestStack''" None served _
      "[ [ (''pk'', AttrS ''WDATA#CITY#Tampere#2023-10-15''),
           (''sk'', AttrS ''2023-10-15T17:00:58+03:00''),
           (''tempCelcius'', AttrN ''6.3'') ] ]"
      "[sampleEvent, sampleEvent]" "[sampleMessage, sampleMessage]"
      sampleMessage "''Tampere''" "''2023-10-15''" "''2023-10-15T17:00:58+03:00''"
      "''5.1''" "''58''" "JArr [JObj [(''body'', sampleMessage)]]"]
    bodies acc flat ok scan
  show ?thesis
    by (simp add: sample_fields)
qed

end
